theory Spec2Isabelle
  imports Main
begin

section \<open>Values, errors and the consumed modules\<close>

text \<open>
  The source throws plain JavaScript \<open>Error\<close> objects, told apart by their message
  only. A rejected promise and a thrown exception are both the left injection of a
  result \<open>error + 'a\<close>.
\<close>

datatype error = Error string

fun message :: "error \<Rightarrow> string" where
  "message (Error m) = m"

text \<open>
  Optional strings: \<open>None\<close> is \<open>undefined\<close>. \<open>truthy\<close> is the test of \<open>!x\<close>,
  \<open>x || y\<close> and \<open>if (x)\<close> on such a value; \<open>str\<close> is what string concatenation and
  a \<open>%s\<close> placeholder make of it.
\<close>

fun truthy :: "string option \<Rightarrow> bool" where
  "truthy None = False"
| "truthy (Some s) = (s \<noteq> [])"

definition or_else :: "string option \<Rightarrow> string option \<Rightarrow> string option" where
  "or_else a b = (if truthy a then a else b)"

fun str :: "string option \<Rightarrow> string" where
  "str None = ''undefined''"
| "str (Some s) = s"

subsection \<open>StateSwitch\<close>

datatype state_name = standby | ready

text \<open>
  Modelled from the spec: the class \<open>StateSwitch\<close> of the package \<open>state-switch\<close>,
  which the source imports and which is not part of it. The spec's session state is a
  pair (current, target) over \<open>standby\<close> and \<open>ready\<close> with a flag "transition in
  progress"; \<open>target(s)\<close> records the desired state, \<open>current(s, false)\<close> marks the
  current state with the transition in progress, \<open>current(s)\<close> settles it,
  \<open>current()\<close> and \<open>inprocess()\<close> are pure queries.
\<close>

record StateSwitch =
  ss_target :: state_name
  ss_current :: state_name
  ss_stable :: bool

definition new_StateSwitch :: "state_name \<Rightarrow> StateSwitch" where
  "new_StateSwitch s = \<lparr>ss_target = s, ss_current = s, ss_stable = True\<rparr>"

definition target :: "state_name \<Rightarrow> StateSwitch \<Rightarrow> StateSwitch" where
  "target s sw = sw\<lparr>ss_target := s\<rparr>"

definition set_current :: "state_name \<Rightarrow> bool \<Rightarrow> StateSwitch \<Rightarrow> StateSwitch" where
  "set_current s stb sw = sw\<lparr>ss_current := s, ss_stable := stb\<rparr>"

definition current :: "StateSwitch \<Rightarrow> state_name" where
  "current sw = ss_current sw"

definition inprocess :: "StateSwitch \<Rightarrow> bool" where
  "inprocess sw = (\<not> ss_stable sw)"

subsection \<open>The driver object\<close>

text \<open>
  The only listeners the source installs on a driver are the closures
  \<open>(...args) => this.emit.apply(this, [e, ...args])\<close> of \<open>initPuppet\<close>, one for each
  captured name \<open>e\<close>. \<open>pid\<close> is the identity of the object: the number of drivers
  constructed before it.
\<close>

datatype listener = Forward string

record Puppet =
  pid :: nat
  puppet_head :: string
  puppet_profile :: "string option"
  listeners :: "(string \<times> listener) list"

text \<open>
  Modelled from the spec: \<open>on\<close> and \<open>emit\<close> of the driver's event emitter (the class
  \<open>Puppet\<close> is not part of the source). \<open>on\<close> subscribes a listener under a name;
  an emission calls the listeners of its name in subscription order, in the same turn.
  The result of \<open>puppet_emit\<close> is the list of the calls of the controller's \<open>emit\<close>
  that one driver emission makes.
\<close>

definition puppet_on :: "string \<Rightarrow> listener \<Rightarrow> Puppet \<Rightarrow> Puppet" where
  "puppet_on e l p = p\<lparr>listeners := listeners p @ [(e, l)]\<rparr>"

fun call_listener :: "listener \<Rightarrow> 'a list \<Rightarrow> (string \<times> 'a list) list" where
  "call_listener (Forward e) args = [(e, args)]"

definition puppet_emit :: "Puppet \<Rightarrow> string \<times> 'a list \<Rightarrow> (string \<times> 'a list) list" where
  "puppet_emit p ev =
     concat (map (\<lambda>(e, l). if e = fst ev then call_listener l (snd ev) else []) (listeners p))"

definition puppet_emits :: "Puppet \<Rightarrow> (string \<times> 'a list) list \<Rightarrow> (string \<times> 'a list) list" where
  "puppet_emits p evs = concat (map (puppet_emit p) evs)"

subsection \<open>Configuration, log and error sink\<close>

record PuppetSetting =
  setting_head :: "string option"
  setting_puppet :: "string option"
  setting_profile :: "string option"

text \<open>
  Modelled from the spec: the module \<open>config\<close>, which the source imports and which is
  not part of it. Its defaults and version strings are parameters;
  \<open>config.puppetInstance(p)\<close> stores \<open>p\<close> in a variable of the module, as the
  comment at its call in \<open>initPuppet\<close> says.
\<close>

record config =
  config_head :: "string option"
  config_puppet :: "string option"
  config_profile :: "string option"
  gitVersion :: "string option"
  npmVersion :: string
  puppetInstance :: "Puppet option"

datatype level = Verbose | Info | Warn | Err

type_synonym log_entry = "level \<times> string \<times> string \<times> string list"

text \<open>
  Modelled from the spec: the observability sink, \<open>log\<close> and \<open>Raven\<close> of the
  module \<open>config\<close>, which is not part of the source. A call of \<open>log\<close> and a call
  of \<open>Raven.captureException\<close> are recorded in the order in which they are made and
  do nothing else.

  \<open>globals\<close> is the state outside the controller object that its methods read and
  write: the module \<open>config\<close>, the lines given to \<open>log\<close>, the errors given to
  \<open>Raven.captureException\<close>, and the number of evaluations of \<open>new PuppetWeb\<close>.
\<close>

record globals =
  conf :: config
  logged :: "log_entry list"
  captured :: "error list"
  news :: nat

definition log :: "level \<Rightarrow> string \<Rightarrow> string list \<Rightarrow> 'a globals_scheme \<Rightarrow> 'a globals_scheme" where
  "log lv template args g = g\<lparr>logged := logged g @ [(lv, ''Wechaty'', template, args)]\<rparr>"

definition captureException :: "error \<Rightarrow> 'a globals_scheme \<Rightarrow> 'a globals_scheme" where
  "captureException e g = g\<lparr>captured := captured g @ [e]\<rparr>"

definition set_puppetInstance :: "Puppet option \<Rightarrow> 'a globals_scheme \<Rightarrow> 'a globals_scheme" where
  "set_puppetInstance p g = g\<lparr>conf := (conf g)\<lparr>puppetInstance := p\<rparr>\<rparr>"

section \<open>The class Wechaty\<close>

record Wechaty =
  setting :: PuppetSetting
  puppet :: "Puppet option"
  state :: StateSwitch
  uuid :: string

text \<open>A method runs on one controller object, \<open>wechaty\<close>, and on the globals.\<close>

record world = globals +
  wechaty :: Wechaty

definition set_puppet :: "Puppet option \<Rightarrow> world \<Rightarrow> world" where
  "set_puppet p w = w\<lparr>wechaty := (wechaty w)\<lparr>puppet := p\<rparr>\<rparr>"

definition set_state :: "(StateSwitch \<Rightarrow> StateSwitch) \<Rightarrow> world \<Rightarrow> world" where
  "set_state f w = w\<lparr>wechaty := (wechaty w)\<lparr>state := f (state (wechaty w))\<rparr>\<rparr>"

text \<open>
  An asynchronous method runs to its first \<open>await\<close> of a driver call in one turn.
  \<open>Return\<close> is a method that finished (or threw) in that turn; \<open>Await p w\<close> is a
  method suspended on a call of driver \<open>p\<close>, having left the world \<open>w\<close>. The
  driver calls are the only points at which a method is suspended here: an \<open>await\<close>
  of a promise of the controller's own that is already settled is part of the turn.
\<close>

datatype 'r step = Return "error + 'r" world | Await Puppet world

subsection \<open>version\<close>

definition version :: "bool \<Rightarrow> config \<Rightarrow> string" where
  "version forceNpm c =
     (if \<not> forceNpm \<and> truthy (gitVersion c) then ''#git['' @ str (gitVersion c) @ '']''
      else npmVersion c)"

subsection \<open>initPuppet\<close>

definition eventList :: "string list" where
  "eventList = [''error'', ''friend'', ''heartbeat'', ''login'', ''logout'', ''message'',
     ''room-join'', ''room-leave'', ''room-topic'', ''scan'']"

text \<open>
  Modelled from the spec: the constructor of \<open>PuppetWeb\<close>, which is not part of the
  source. The new driver keeps the head and the profile it is given and has no
  listener of the controller yet.
\<close>

definition new_PuppetWeb :: "nat \<Rightarrow> string \<Rightarrow> string option \<Rightarrow> Puppet" where
  "new_PuppetWeb n h pr = \<lparr>pid = n, puppet_head = h, puppet_profile = pr, listeners = []\<rparr>"

text \<open>
  \<open>ctor\<close> is what \<open>new PuppetWeb\<close> does: \<open>None\<close> when it returns the driver,
  \<open>Some e\<close> when it throws \<open>e\<close>.
\<close>

definition initPuppet_begin :: "error option \<Rightarrow> world \<Rightarrow> Puppet step" where
  "initPuppet_begin ctor w =
     (let s = setting (wechaty w) in
      if \<not> truthy (setting_head s) then Return (Inl (Error ''no head'')) w
      else if setting_puppet s = Some ''web'' then
        (let w1 = w\<lparr>news := Suc (news w)\<rparr> in
         case ctor of
           Some e \<Rightarrow> Return (Inl e) w1
         | None \<Rightarrow>
            (let p0 = new_PuppetWeb (news w) (str (setting_head s)) (setting_profile s);
                 p = foldl (\<lambda>q e. puppet_on e (Forward e) q) p0 eventList
             in Await p (set_puppetInstance (Some p) (set_puppet (Some p) w1))))
      else Return (Inl (Error (''Puppet unsupport(yet?): '' @ str (setting_puppet s)))) w)"

text \<open>\<open>start\<close> is the outcome of the awaited \<open>puppet.init()\<close>.\<close>

definition initPuppet_resume :: "error option \<Rightarrow> Puppet \<Rightarrow> world \<Rightarrow> (error + Puppet) \<times> world" where
  "initPuppet_resume start p w = (case start of Some e \<Rightarrow> (Inl e, w) | None \<Rightarrow> (Inr p, w))"

text \<open>A call of \<open>initPuppet\<close> that nothing interleaves with.\<close>

definition initPuppet :: "error option \<Rightarrow> error option \<Rightarrow> world \<Rightarrow> (error + Puppet) \<times> world" where
  "initPuppet ctor start w =
     (case initPuppet_begin ctor w of
        Return r w' \<Rightarrow> (r, w')
      | Await p w' \<Rightarrow> initPuppet_resume start p w')"

subsection \<open>init\<close>

definition init_catch :: "error \<Rightarrow> world \<Rightarrow> world" where
  "init_catch e w = captureException e (log Err ''init() exception: %s'' [message e] w)"

definition init_log :: "world \<Rightarrow> world" where
  "init_log w =
     (let s = setting (wechaty w) in
      log Verbose ''uuid: %s'' [uuid (wechaty w)]
       (log Verbose ''profile: %s'' [str (setting_profile s)]
        (log Verbose ''head: %s'' [str (setting_head s)]
         (log Verbose ''puppet: %s'' [str (setting_puppet s)]
          (log Info ''v%s initializing...'' [version False (conf w)] w)))))"

definition init_begin :: "error option \<Rightarrow> world \<Rightarrow> unit step" where
  "init_begin ctor w =
     (let w0 = init_log w in
      if current (state (wechaty w0)) = ready
      then Return (Inr ()) (log Err ''init() already inited. return and do nothing.'' [] w0)
      else
        (let w1 = set_state (target ready) w0;
             w2 = set_state (set_current ready False) w1
         in case initPuppet_begin ctor w2 of
              Return (Inl e) w3 \<Rightarrow> Return (Inl e) (init_catch e w3)
            | Return (Inr p) w3 \<Rightarrow> Return (Inr ()) (set_state (set_current ready True) w3)
            | Await p w3 \<Rightarrow> Await p w3))"

definition init_resume :: "error option \<Rightarrow> Puppet \<Rightarrow> world \<Rightarrow> (error + unit) \<times> world" where
  "init_resume start p w =
     (case initPuppet_resume start p w of
        (Inl e, w') \<Rightarrow> (Inl e, init_catch e w')
      | (Inr q, w') \<Rightarrow> (Inr (), set_state (set_current ready True) w'))"

text \<open>A call of \<open>init\<close> that nothing interleaves with.\<close>

definition init :: "error option \<Rightarrow> error option \<Rightarrow> world \<Rightarrow> (error + unit) \<times> world" where
  "init ctor start w =
     (case init_begin ctor w of
        Return r w' \<Rightarrow> (r, w')
      | Await p w' \<Rightarrow> init_resume start p w')"

subsection \<open>quit\<close>

definition quit_begin :: "world \<Rightarrow> unit step" where
  "quit_begin w =
     (let w0 = log Verbose ''quit()'' [] w in
      if current (state (wechaty w0)) \<noteq> ready \<or> inprocess (state (wechaty w0))
      then
        (let err = Error ''quit() must run on a inited instance.''
         in Return (Inl err) (log Err (message err) [] w0))
      else
        (let w1 = set_state (target standby) w0;
             w2 = set_state (set_current standby False) w1
         in case puppet (wechaty w2) of
              None \<Rightarrow> Return (Inr ()) (log Warn ''quit() without this.puppet'' [] w2)
            | Some puppetBeforeDie \<Rightarrow>
                Await puppetBeforeDie (set_puppetInstance None (set_puppet None w2))))"

text \<open>\<open>teardown\<close> is the outcome of the awaited \<open>puppetBeforeDie.quit()\<close>.\<close>

definition quit_resume :: "error option \<Rightarrow> world \<Rightarrow> (error + unit) \<times> world" where
  "quit_resume teardown w =
     (case teardown of
        Some e \<Rightarrow> (Inl e, captureException e (log Err ''quit() exception: %s'' [message e] w))
      | None \<Rightarrow> (Inr (), set_state (set_current standby True) w))"

text \<open>A call of \<open>quit\<close> that nothing interleaves with.\<close>

definition quit :: "error option \<Rightarrow> world \<Rightarrow> (error + unit) \<times> world" where
  "quit teardown w =
     (case quit_begin w of
        Return r w' \<Rightarrow> (r, w')
      | Await p w' \<Rightarrow> quit_resume teardown w')"

subsection \<open>Delegation to the driver\<close>

text \<open>
  Each method takes the outcome of the driver call it makes: \<open>Inl e\<close> or \<open>Some e\<close>
  when the driver throws or rejects with \<open>e\<close>.
\<close>

definition reset :: "string option \<Rightarrow> error option \<Rightarrow> world \<Rightarrow> (error + unit) \<times> world" where
  "reset reason outcome w =
     (let w0 = log Verbose ''reset() because %s'' [str reason] w in
      case puppet (wechaty w0) of
        None \<Rightarrow> (Inl (Error ''no puppet''), w0)
      | Some p \<Rightarrow> (case outcome of Some e \<Rightarrow> (Inl e, w0) | None \<Rightarrow> (Inr (), w0)))"

definition logout :: "error option \<Rightarrow> world \<Rightarrow> (error + unit) \<times> world" where
  "logout outcome w =
     (case puppet (wechaty w) of
        None \<Rightarrow> (Inl (Error ''no puppet''), w)
      | Some p \<Rightarrow>
         (case outcome of
            Some e \<Rightarrow> (Inl e, captureException e (log Err ''logout() exception: %s'' [message e] w))
          | None \<Rightarrow> (Inr (), w)))"

definition self :: "(error + 'c) \<Rightarrow> world \<Rightarrow> (error + 'c) \<times> world" where
  "self outcome w =
     (case puppet (wechaty w) of
        None \<Rightarrow> (Inl (Error ''Wechaty.self() no puppet''), w)
      | Some p \<Rightarrow> (outcome, w))"

definition send :: "'m \<Rightarrow> (error + bool) \<Rightarrow> world \<Rightarrow> (error + bool) \<times> world" where
  "send msg outcome w =
     (case puppet (wechaty w) of
        None \<Rightarrow> (Inl (Error ''no puppet''), w)
      | Some p \<Rightarrow>
         (case outcome of
            Inl e \<Rightarrow> (Inl e, captureException e (log Err ''send() exception: %s'' [message e] w))
          | Inr b \<Rightarrow> (Inr b, w)))"

definition say :: "string \<Rightarrow> (error + bool) \<Rightarrow> world \<Rightarrow> (error + bool) \<times> world" where
  "say content outcome w =
     (let w0 = log Verbose ''say(%s)'' [content] w in
      case puppet (wechaty w0) of
        None \<Rightarrow> (Inl (Error ''no puppet''), w0)
      | Some p \<Rightarrow> (outcome, w0))"

definition ding :: "(error + 'd) \<Rightarrow> world \<Rightarrow> (error + 'd) \<times> world" where
  "ding outcome w =
     (case puppet (wechaty w) of
        None \<Rightarrow> (Inl (Error ''wechaty cant ding coz no puppet''), w)
      | Some p \<Rightarrow>
         (case outcome of
            Inl e \<Rightarrow> (Inl e, captureException e (log Err ''ding() exception: %s'' [message e] w))
          | Inr d \<Rightarrow> (Inr d, w)))"

subsection \<open>The constructor and the singleton\<close>

text \<open>
  The test of \<open>/\.wechaty\.json$/i\<close>: the string ends in \<open>.wechaty.json\<close>, letters
  compared without case.
\<close>

definition lower :: "char \<Rightarrow> char" where
  "lower c =
     (case map_of (zip ''ABCDEFGHIJKLMNOPQRSTUVWXYZ'' ''abcdefghijklmnopqrstuvwxyz'') c of
        None \<Rightarrow> c
      | Some d \<Rightarrow> d)"

definition test_wechaty_json :: "string \<Rightarrow> bool" where
  "test_wechaty_json s =
     (let n = length ''.wechaty.json'' in
      n \<le> length s \<and> map lower (drop (length s - n) s) = ''.wechaty.json'')"

text \<open>
  \<open>arg\<close> is the constructor's argument (\<open>None\<close> when it is left out, and the default
  \<open>{}\<close> is taken), \<open>guid\<close> the string that \<open>UtilLib.guid()\<close> returns.
\<close>

definition new_Wechaty ::
  "PuppetSetting option \<Rightarrow> string \<Rightarrow> 'a globals_scheme \<Rightarrow> Wechaty \<times> 'a globals_scheme" where
  "new_Wechaty arg guid g =
     (let s0 = (case arg of
                  None \<Rightarrow> \<lparr>setting_head = None, setting_puppet = None, setting_profile = None\<rparr>
                | Some s \<Rightarrow> s);
          g1 = log Verbose ''contructor()'' [] g;
          s1 = s0\<lparr>setting_head := or_else (setting_head s0) (config_head (conf g1))\<rparr>;
          s2 = s1\<lparr>setting_puppet := or_else (setting_puppet s1) (config_puppet (conf g1))\<rparr>;
          s3 = s2\<lparr>setting_profile := or_else (setting_profile s2) (config_profile (conf g1))\<rparr>;
          s4 = (if truthy (setting_profile s3)
                then s3\<lparr>setting_profile :=
                          (if test_wechaty_json (str (setting_profile s3))
                           then setting_profile s3
                           else Some (str (setting_profile s3) @ ''.wechaty.json''))\<rparr>
                else s3)
      in (\<lparr>setting = s4, puppet = None, state = new_StateSwitch standby, uuid = guid\<rparr>, g1))"

text \<open>
  The static \<open>Wechaty._instance\<close> (\<open>static_instance\<close>) refers to an object: \<open>heap\<close> holds the controller
  objects constructed so far, and a handle is the index of an object in it.
\<close>

record process = globals +
  heap :: "Wechaty list"
  static_instance :: "nat option"

definition Wechaty_instance :: "PuppetSetting option \<Rightarrow> string \<Rightarrow> process \<Rightarrow> (error + nat) \<times> process" where
  "Wechaty_instance arg guid st =
     (if arg \<noteq> None \<and> static_instance st \<noteq> None
      then (Inl (Error ''there has already a instance. no params will be allowed any more''), st)
      else
        (case static_instance st of
           None \<Rightarrow>
             (let (obj, st1) = new_Wechaty arg guid st;
                  h = length (heap st1)
              in (Inr h, st1\<lparr>heap := heap st1 @ [obj], static_instance := Some h\<rparr>))
         | Some h \<Rightarrow> (Inr h, st)))"

subsection \<open>Sequences of calls\<close>

fun inits :: "(error option \<times> error option) list \<Rightarrow> world \<Rightarrow> (error + unit) list \<times> world" where
  "inits [] w = ([], w)"
| "inits ((ctor, start) # xs) w =
     (let (r, w1) = init ctor start w; (rs, w2) = inits xs w1 in (r # rs, w2))"

fun world_of :: "'r step \<Rightarrow> world" where
  "world_of (Return r w) = w"
| "world_of (Await p w) = w"

subsection \<open>Example inputs\<close>

definition config0 :: config where
  "config0 = \<lparr>config_head = Some ''chrome'', config_puppet = Some ''web'',
     config_profile = None, gitVersion = None, npmVersion = ''0.8.0'', puppetInstance = None\<rparr>"

definition setting0 :: PuppetSetting where
  "setting0 = \<lparr>setting_head = Some ''chrome'', setting_puppet = Some ''web'',
     setting_profile = None\<rparr>"

definition wechaty0 :: Wechaty where
  "wechaty0 = \<lparr>setting = setting0, puppet = None, state = new_StateSwitch standby,
     uuid = ''uuid-0''\<rparr>"

definition world0 :: world where
  "world0 = \<lparr>conf = config0, logged = [], captured = [], news = 0, wechaty = wechaty0\<rparr>"

definition setting1 :: PuppetSetting where
  "setting1 = \<lparr>setting_head = None, setting_puppet = Some ''android'',
     setting_profile = None\<rparr>"

definition setting2 :: PuppetSetting where
  "setting2 = \<lparr>setting_head = Some ''chrome'', setting_puppet = Some ''android'',
     setting_profile = None\<rparr>"

definition setting3 :: PuppetSetting where
  "setting3 = \<lparr>setting_head = None, setting_puppet = Some ''android'',
     setting_profile = Some ''bot''\<rparr>"

definition setting4 :: PuppetSetting where
  "setting4 = \<lparr>setting_head = Some ''firefox'', setting_puppet = None,
     setting_profile = Some ''My.WeChaty.JSON''\<rparr>"

text \<open>
  \<open>world1\<close>: the controller that the constructor builds from \<open>{puppet: 'android'}\<close>
  when the module \<open>config\<close> has no default head. \<open>world2\<close>: the same kind with a
  head.
\<close>

definition globals1 :: globals where
  "globals1 = \<lparr>conf = config0\<lparr>config_head := None\<rparr>, logged = [], captured = [], news = 0\<rparr>"

definition world1 :: world where
  "world1 = \<lparr>conf = conf globals1, logged = [], captured = [], news = 0,
     wechaty = fst (new_Wechaty (Some setting1) ''uuid-1'' globals1)\<rparr>"

definition world2 :: world where
  "world2 = world0\<lparr>wechaty := wechaty0\<lparr>setting := setting2\<rparr>\<rparr>"

definition puppet0 :: Puppet where
  "puppet0 = \<lparr>pid = 0, puppet_head = ''chrome'', puppet_profile = None,
     listeners = map (\<lambda>e. (e, Forward e)) eventList\<rparr>"

text \<open>The world in which \<open>initPuppet\<close> on \<open>world0\<close> awaits the driver's start-up.\<close>

definition world_starting :: world where
  "world_starting =
     set_puppetInstance (Some puppet0) (set_puppet (Some puppet0) (world0\<lparr>news := 1\<rparr>))"

text \<open>A controller in \<open>standby\<close> that holds a driver.\<close>

definition world_bound :: world where
  "world_bound = set_puppet (Some puppet0) world0"

text \<open>A controller that is \<open>ready\<close> and settled and holds no driver.\<close>

definition world_driverless :: world where
  "world_driverless = set_state (set_current ready True) world0"

definition process0 :: process where
  "process0 = \<lparr>conf = config0, logged = [], captured = [], news = 0, heap = [],
     static_instance = None\<rparr>"

definition world_ready :: world where
  "world_ready = snd (init None None world0)"

subsection \<open>Reachable worlds\<close>

text \<open>
  A world is fresh when the controller is as its constructor leaves it and the module
  \<open>config\<close> holds no driver. The reachable worlds are those that turns of the
  methods lead to from a fresh one; the two halves of \<open>init\<close> and of \<open>quit\<close> are
  turns of their own, so that calls may interleave at an \<open>await\<close>.
\<close>

definition fresh :: "world \<Rightarrow> bool" where
  "fresh w \<longleftrightarrow>
     puppet (wechaty w) = None \<and> state (wechaty w) = new_StateSwitch standby \<and>
     puppetInstance (conf w) = None"

inductive reachable :: "world \<Rightarrow> bool" where
  r_fresh: "fresh w \<Longrightarrow> reachable w"
| r_init_begin: "reachable w \<Longrightarrow> reachable (world_of (init_begin ctor w))"
| r_init_resume: "reachable w \<Longrightarrow> reachable (snd (init_resume start p w))"
| r_quit_begin: "reachable w \<Longrightarrow> reachable (world_of (quit_begin w))"
| r_quit_resume: "reachable w \<Longrightarrow> reachable (snd (quit_resume teardown w))"
| r_reset: "reachable w \<Longrightarrow> reachable (snd (reset reason outcome w))"
| r_logout: "reachable w \<Longrightarrow> reachable (snd (logout outcome w))"
| r_send: "reachable w \<Longrightarrow> reachable (snd (send () result w))"
| r_say: "reachable w \<Longrightarrow> reachable (snd (say content result w))"
| r_ding: "reachable w \<Longrightarrow> reachable (snd (ding (pong :: error + unit) w))"

definition registry_inv :: "world \<Rightarrow> bool" where
  "registry_inv w \<longleftrightarrow> puppetInstance (conf w) = puppet (wechaty w)"

section \<open>Basic facts\<close>

lemmas world_simps = log_def captureException_def set_puppetInstance_def set_puppet_def
  set_state_def target_def set_current_def current_def inprocess_def

lemmas init_simps = init_def init_begin_def init_resume_def initPuppet_begin_def
  initPuppet_resume_def init_catch_def

lemmas example_simps = world0_def wechaty0_def setting0_def config0_def new_StateSwitch_def

lemma log_frame [simp]:
  "wechaty (log lv t a w) = wechaty w"
  "conf (log lv t a g) = conf g"
  "news (log lv t a g) = news g"
  "captured (log lv t a g) = captured g"
  "logged (log lv t a g) = logged g @ [(lv, ''Wechaty'', t, a)]"
  by (simp_all add: log_def)

lemma init_log_frame [simp]:
  "wechaty (init_log w) = wechaty w"
  "conf (init_log w) = conf w"
  "news (init_log w) = news w"
  "captured (init_log w) = captured w"
  "length (logged (init_log w)) = length (logged w) + 5"
  by (simp_all add: init_log_def Let_def)

subsection \<open>init\<close>

lemma init_begin_ready:
  "current (state (wechaty w)) = ready \<Longrightarrow>
   init_begin ctor w =
     Return (Inr ()) (log Err ''init() already inited. return and do nothing.'' [] (init_log w))"
  by (simp add: init_begin_def Let_def)

lemma init_ready:
  "current (state (wechaty w)) = ready \<Longrightarrow>
   init ctor start w =
     (Inr (), log Err ''init() already inited. return and do nothing.'' [] (init_log w))"
  by (simp add: init_def init_begin_ready)

lemma init_begin_post_ready:
  "current (state (wechaty (world_of (init_begin ctor w)))) = ready"
  by (auto simp: init_simps Let_def world_simps split: option.splits)

lemma init_post_ready: "current (state (wechaty (snd (init ctor start w)))) = ready"
  by (auto simp: init_simps Let_def world_simps split: step.splits sum.splits option.splits)

lemma inits_ready:
  "current (state (wechaty w)) = ready \<Longrightarrow>
   fst (inits xs w) = replicate (length xs) (Inr ()) \<and>
   wechaty (snd (inits xs w)) = wechaty w \<and> conf (snd (inits xs w)) = conf w \<and>
   news (snd (inits xs w)) = news w \<and> captured (snd (inits xs w)) = captured w \<and>
   length (logged (snd (inits xs w))) = length (logged w) + 6 * length xs"
proof (induction xs arbitrary: w)
  case Nil
  show ?case by simp
next
  case (Cons x xs)
  obtain c s where x: "x = (c, s)" by (cases x)
  let ?w1 = "log Err ''init() already inited. return and do nothing.'' [] (init_log w)"
  have step: "init c s w = (Inr (), ?w1)" using Cons.prems by (rule init_ready)
  have "current (state (wechaty ?w1)) = ready" using Cons.prems by simp
  from Cons.IH [OF this] show ?case
    by (auto simp: x step split: prod.splits)
qed

lemma init_failure_result:
  assumes "current (state (wechaty w)) \<noteq> ready"
    and "fst (initPuppet ctor start w) = Inl e"
  shows "fst (init ctor start w) = Inl e"
    and "captured (snd (init ctor start w)) = captured w @ [e]"
    and "last (logged (snd (init ctor start w))) =
         (Err, ''Wechaty'', ''init() exception: %s'', [message e])"
    and "state (wechaty (snd (init ctor start w))) =
         \<lparr>ss_target = ready, ss_current = ready, ss_stable = False\<rparr>"
  using assms
  by (auto simp: init_simps initPuppet_def init_log_def Let_def world_simps
      split: option.splits if_splits)

lemma init_world0: "fst (init None None world0) = Inr ()"
  by (simp add: example_simps init_simps Let_def world_simps)

lemma world_ready_state:
  "state (wechaty world_ready) = \<lparr>ss_target = ready, ss_current = ready, ss_stable = True\<rparr>"
  by (simp add: world_ready_def example_simps init_simps Let_def world_simps)

lemma foldl_puppet_on:
  "foldl (\<lambda>q e. puppet_on e (Forward e) q) p es =
     p\<lparr>listeners := listeners p @ map (\<lambda>e. (e, Forward e)) es\<rparr>"
  by (induction es arbitrary: p) (simp_all add: puppet_on_def)

lemma initPuppet_begin_world0: "initPuppet_begin None world0 = Await puppet0 world_starting"
  by (simp add: example_simps initPuppet_begin_def Let_def foldl_puppet_on new_PuppetWeb_def
      puppet0_def world_starting_def)

lemma world_ready_puppet: "puppet (wechaty world_ready) = Some puppet0"
  by (simp add: world_ready_def example_simps init_simps Let_def world_simps foldl_puppet_on
      new_PuppetWeb_def puppet0_def)

lemma world_ready_news: "news world_ready = 1"
  by (simp add: world_ready_def example_simps init_simps Let_def world_simps)

subsection \<open>quit\<close>

lemma quit_begin_rejected:
  "current (state (wechaty w)) \<noteq> ready \<or> inprocess (state (wechaty w)) \<Longrightarrow>
   quit_begin w =
     Return (Inl (Error ''quit() must run on a inited instance.''))
       (log Err ''quit() must run on a inited instance.'' [] (log Verbose ''quit()'' [] w))"
  by (simp add: quit_begin_def Let_def)

lemma quit_ok_unbound:
  "fst (quit teardown w) = Inr () \<Longrightarrow> puppet (wechaty (snd (quit teardown w))) = None"
  by (auto simp: quit_def quit_begin_def quit_resume_def Let_def world_simps
      split: option.splits if_splits)

subsection \<open>The relay\<close>

lemma initPuppet_begin_bound:
  assumes "initPuppet_begin ctor w = Await p w'"
  shows "listeners p = map (\<lambda>e. (e, Forward e)) eventList"
    and "puppet (wechaty w') = Some p"
    and "puppetInstance (conf w') = Some p"
  using assms
  by (auto simp: initPuppet_begin_def Let_def foldl_puppet_on new_PuppetWeb_def world_simps
      split: if_splits option.splits)

lemma emit_forwarders:
  "distinct es \<Longrightarrow>
   concat (map (\<lambda>(e, l). if e = name then call_listener l args else [])
     (map (\<lambda>e. (e, Forward e)) es)) = (if name \<in> set es then [(name, args)] else [])"
  by (induction es) auto

lemma distinct_eventList: "distinct eventList"
  by (simp add: eventList_def)

lemma puppet_emit_relay:
  assumes "listeners p = map (\<lambda>e. (e, Forward e)) eventList"
  shows "puppet_emit p ev = (if fst ev \<in> set eventList then [ev] else [])"
  using emit_forwarders [OF distinct_eventList, of "fst ev" "snd ev"]
  by (simp add: puppet_emit_def assms)

lemma puppet_emits_relay:
  assumes "listeners p = map (\<lambda>e. (e, Forward e)) eventList"
  shows "puppet_emits p evs = filter (\<lambda>ev. fst ev \<in> set eventList) evs"
  by (induction evs) (simp_all add: puppet_emits_def puppet_emit_relay [OF assms])

subsection \<open>The singleton\<close>

lemma new_Wechaty_frame [simp]:
  "heap (snd (new_Wechaty arg guid st)) = heap st"
  "static_instance (snd (new_Wechaty arg guid st)) = static_instance st"
  by (simp_all add: new_Wechaty_def Let_def log_def)

lemma ends_with_iff:
  "(length lit \<le> length s \<and> map f (drop (length s - length lit) s) = lit) \<longleftrightarrow>
   (\<exists>pre suf. s = pre @ suf \<and> map f suf = lit)"
proof
  assume "length lit \<le> length s \<and> map f (drop (length s - length lit) s) = lit"
  then have "s = take (length s - length lit) s @ drop (length s - length lit) s
      \<and> map f (drop (length s - length lit) s) = lit"
    by simp
  then show "\<exists>pre suf. s = pre @ suf \<and> map f suf = lit" by blast
next
  assume "\<exists>pre suf. s = pre @ suf \<and> map f suf = lit"
  then obtain pre suf where s: "s = pre @ suf" and m: "map f suf = lit" by blast
  from m have "length suf = length lit" by auto
  then show "length lit \<le> length s \<and> map f (drop (length s - length lit) s) = lit"
    using m by (simp add: s)
qed

lemma test_wechaty_json_iff:
  "test_wechaty_json s \<longleftrightarrow> (\<exists>pre suf. s = pre @ suf \<and> map lower suf = ''.wechaty.json'')"
  unfolding test_wechaty_json_def Let_def by (rule ends_with_iff)

lemma lower_ascii:
  "map lower ''ABCDEFGHIJKLMNOPQRSTUVWXYZ'' = ''abcdefghijklmnopqrstuvwxyz''"
  "map lower ''abcdefghijklmnopqrstuvwxyz.-_/0189 @[`{'' = ''abcdefghijklmnopqrstuvwxyz.-_/0189 @[`{''"
  by (simp_all add: lower_def)

lemma new_Wechaty_setting:
  "setting_head (setting (fst (new_Wechaty arg guid g))) =
     or_else (case arg of None \<Rightarrow> None | Some s \<Rightarrow> setting_head s) (config_head (conf g))"
  "setting_puppet (setting (fst (new_Wechaty arg guid g))) =
     or_else (case arg of None \<Rightarrow> None | Some s \<Rightarrow> setting_puppet s) (config_puppet (conf g))"
  "puppet (fst (new_Wechaty arg guid g)) = None"
  "state (fst (new_Wechaty arg guid g)) = new_StateSwitch standby"
  "uuid (fst (new_Wechaty arg guid g)) = guid"
  by (simp_all add: new_Wechaty_def Let_def split: option.splits)

lemma new_Wechaty_profile:
  "setting_profile (setting (fst (new_Wechaty arg guid g))) =
     (let pr = or_else (case arg of None \<Rightarrow> None | Some s \<Rightarrow> setting_profile s)
                 (config_profile (conf g))
      in if \<not> truthy pr then pr
         else if test_wechaty_json (str pr) then pr
         else Some (str pr @ ''.wechaty.json''))"
  by (simp add: new_Wechaty_def Let_def split: option.splits)

lemma new_Wechaty_logged:
  "logged (snd (new_Wechaty arg guid g)) = logged g @ [(Verbose, ''Wechaty'', ''contructor()'', [])]"
  "conf (snd (new_Wechaty arg guid g)) = conf g"
  by (simp_all add: new_Wechaty_def Let_def)

lemma Wechaty_instance_process0:
  "Wechaty_instance (Some setting3) ''guid-1'' process0 =
    (Inr 0, process0\<lparr>logged := [(Verbose, ''Wechaty'', ''contructor()'', [])],
       heap := [\<lparr>setting = \<lparr>setting_head = Some ''chrome'', setting_puppet = Some ''android'',
                    setting_profile = Some ''bot.wechaty.json''\<rparr>,
                 puppet = None, state = new_StateSwitch standby, uuid = ''guid-1''\<rparr>],
       static_instance := Some 0\<rparr>)"
  by (simp add: Wechaty_instance_def new_Wechaty_def process0_def setting3_def config0_def
      or_else_def test_wechaty_json_def lower_def Let_def log_def)

lemma new_Wechaty_setting4:
  "setting (fst (new_Wechaty (Some setting4) ''guid-1'' process0)) =
     \<lparr>setting_head = Some ''firefox'', setting_puppet = Some ''web'',
      setting_profile = Some ''My.WeChaty.JSON''\<rparr>"
  by (simp add: new_Wechaty_def process0_def setting4_def config0_def
      or_else_def test_wechaty_json_def lower_def Let_def log_def)

lemma set_eventList:
  "set eventList = {''error'', ''friend'', ''heartbeat'', ''login'', ''logout'', ''message'',
     ''room-join'', ''room-leave'', ''room-topic'', ''scan''}"
  by (simp add: eventList_def)

subsection \<open>Reachable worlds\<close>

lemma inv_init_begin: "registry_inv w \<Longrightarrow> registry_inv (world_of (init_begin ctor w))"
  by (auto simp: registry_inv_def init_begin_def initPuppet_begin_def init_catch_def init_log_def
      Let_def world_simps split: option.splits)

lemma inv_init_resume: "registry_inv w \<Longrightarrow> registry_inv (snd (init_resume start p w))"
  by (auto simp: registry_inv_def init_resume_def initPuppet_resume_def init_catch_def
      Let_def world_simps split: option.splits)

lemma inv_quit_begin: "registry_inv w \<Longrightarrow> registry_inv (world_of (quit_begin w))"
  by (auto simp: registry_inv_def quit_begin_def Let_def world_simps split: option.splits)

lemma inv_quit_resume: "registry_inv w \<Longrightarrow> registry_inv (snd (quit_resume teardown w))"
  by (auto simp: registry_inv_def quit_resume_def Let_def world_simps split: option.splits)

lemma inv_delegation:
  "registry_inv w \<Longrightarrow> registry_inv (snd (reset reason outcome w))"
  "registry_inv w \<Longrightarrow> registry_inv (snd (logout outcome w))"
  "registry_inv w \<Longrightarrow> registry_inv (snd (send msg result w))"
  "registry_inv w \<Longrightarrow> registry_inv (snd (say content result w))"
  "registry_inv w \<Longrightarrow> registry_inv (snd (ding pong w))"
  by (auto simp: registry_inv_def reset_def logout_def send_def say_def ding_def
      Let_def world_simps split: option.splits sum.splits)

lemma reachable_init: "reachable w \<Longrightarrow> reachable (snd (init ctor start w))"
proof -
  assume r: "reachable w"
  show ?thesis
  proof (cases "init_begin ctor w")
    case (Return res w')
    with r_init_begin [OF r, of ctor] show ?thesis by (simp add: init_def)
  next
    case (Await p w')
    with r_init_begin [OF r, of ctor] have "reachable w'" by simp
    from r_init_resume [OF this, of start p] Await show ?thesis by (simp add: init_def)
  qed
qed

lemma fresh_world0: "fresh world0"
  by (simp add: fresh_def world0_def wechaty0_def config0_def)

lemma reachable_world_ready: "reachable world_ready"
  unfolding world_ready_def by (rule reachable_init [OF r_fresh [OF fresh_world0]])

section \<open>The claims\<close>

text \<open>
  C1. A call of \<open>init\<close> on a controller whose current state is \<open>ready\<close> returns in
  its first turn without error, having only written its log lines (the last of them
  the line "already inited"). The first turn of any call of \<open>init\<close> leaves the current
  state \<open>ready\<close>. So after a first call of \<open>init\<close>, whatever its outcome, every call
  of a sequence of further calls of \<open>init\<close> (no \<open>quit\<close> in between) returns without
  error, evaluates \<open>new PuppetWeb\<close> no more (\<open>news\<close> is unchanged), leaves the
  controller, the module \<open>config\<close> and the error sink as they were, and logs its six
  lines.
\<close>

theorem init_idempotent:
  "(current (state (wechaty w)) = ready \<longrightarrow>
      init_begin ctor w =
        Return (Inr ())
          (log Err ''init() already inited. return and do nothing.'' [] (init_log w)))
   \<and> current (state (wechaty (world_of (init_begin ctor w)))) = ready
   \<and> fst (inits xs (snd (init ctor start w))) = replicate (length xs) (Inr ())
   \<and> news (snd (inits xs (snd (init ctor start w)))) = news (snd (init ctor start w))
   \<and> wechaty (snd (inits xs (snd (init ctor start w)))) = wechaty (snd (init ctor start w))
   \<and> conf (snd (inits xs (snd (init ctor start w)))) = conf (snd (init ctor start w))
   \<and> captured (snd (inits xs (snd (init ctor start w)))) = captured (snd (init ctor start w))
   \<and> length (logged (snd (inits xs (snd (init ctor start w))))) =
       length (logged (snd (init ctor start w))) + 6 * length xs"
  using inits_ready [OF init_post_ready, of xs ctor start w] init_begin_ready [of w ctor]
    init_begin_post_ready [of ctor w]
  by simp

theorem init_idempotent_witness:
  "current (state (wechaty world_ready)) = ready
   \<and> init_begin None world_ready =
       Return (Inr ())
         (log Err ''init() already inited. return and do nothing.'' [] (init_log world_ready))
   \<and> fst (inits [(None, None), (None, Some (Error ''late''))] (snd (init None None world_ready)))
       = [Inr (), Inr ()]
   \<and> news (snd (inits [(None, None), (None, Some (Error ''late''))]
         (snd (init None None world_ready)))) = 1"
proof -
  have r: "current (state (wechaty world_ready)) = ready"
    by (simp add: world_ready_state current_def)
  have n: "news (snd (init None None world_ready)) = 1"
    using r world_ready_news by (simp add: init_ready)
  show ?thesis
    using r n
      init_idempotent [of world_ready None "[(None, None), (None, Some (Error ''late''))]" None]
    by simp
qed

text \<open>
  C2. When the current state is not \<open>ready\<close>, or a transition is in progress, \<open>quit\<close>
  throws the error "quit() must run on a inited instance." (the spec's
  InvalidLifecycleState) in its first turn, whether or not a driver is bound: it writes
  two log lines and leaves the state machine, the driver reference and the module
  \<open>config\<close> as they were.
\<close>

theorem quit_rejected:
  assumes "current (state (wechaty w)) \<noteq> ready \<or> inprocess (state (wechaty w))"
  shows "quit_begin w =
           Return (Inl (Error ''quit() must run on a inited instance.''))
             (log Err ''quit() must run on a inited instance.'' [] (log Verbose ''quit()'' [] w))
         \<and> fst (quit teardown w) = Inl (Error ''quit() must run on a inited instance.'')
         \<and> state (wechaty (snd (quit teardown w))) = state (wechaty w)
         \<and> puppet (wechaty (snd (quit teardown w))) = puppet (wechaty w)
         \<and> conf (snd (quit teardown w)) = conf w"
  by (simp add: quit_begin_rejected [OF assms] quit_def)

theorem quit_rejected_witness:
  "current (state (wechaty world_bound)) = standby
   \<and> puppet (wechaty world_bound) = Some puppet0
   \<and> fst (quit None world_bound) = Inl (Error ''quit() must run on a inited instance.'')
   \<and> state (wechaty (snd (quit None world_bound))) = state (wechaty world_bound)
   \<and> puppet (wechaty (snd (quit None world_bound))) = puppet (wechaty world_bound)"
proof -
  have c: "current (state (wechaty world_bound)) = standby"
    by (simp add: world_bound_def example_simps world_simps)
  have p: "puppet (wechaty world_bound) = Some puppet0"
    by (simp add: world_bound_def set_puppet_def)
  from c have "current (state (wechaty world_bound)) \<noteq> ready
      \<or> inprocess (state (wechaty world_bound))"
    by simp
  from quit_rejected [OF this, of None] c p show ?thesis by simp
qed

text \<open>
  C3. The claim: when driver construction or start-up fails during \<open>init\<close>, the
  error is reported and thrown again, the current state stays \<open>ready\<close>, and an
  explicit \<open>quit\<close> recovers the session. The code at a failing input, a fresh
  controller for the \<open>web\<close> driver whose start-up rejects with "boom": \<open>init\<close>
  gives the error to the error sink and throws it, and leaves the current state
  \<open>ready\<close> with the transition in progress and the driver bound, as the claim says.
  But the \<open>quit\<close> that follows is rejected by its guard and tears nothing down: the
  state is still \<open>ready\<close>, in progress, and the driver is still bound.
\<close>

theorem init_failure_then_quit:
  "current (state (wechaty world0)) = standby
   \<and> fst (init None (Some (Error ''boom'')) world0) = Inl (Error ''boom'')
   \<and> captured (snd (init None (Some (Error ''boom'')) world0)) = [Error ''boom'']
   \<and> state (wechaty (snd (init None (Some (Error ''boom'')) world0))) =
       \<lparr>ss_target = ready, ss_current = ready, ss_stable = False\<rparr>
   \<and> puppet (wechaty (snd (init None (Some (Error ''boom'')) world0))) = Some puppet0
   \<and> fst (quit None (snd (init None (Some (Error ''boom'')) world0))) =
       Inl (Error ''quit() must run on a inited instance.'')
   \<and> state (wechaty (snd (quit None (snd (init None (Some (Error ''boom'')) world0))))) =
       \<lparr>ss_target = ready, ss_current = ready, ss_stable = False\<rparr>
   \<and> puppet (wechaty (snd (quit None (snd (init None (Some (Error ''boom'')) world0))))) =
       Some puppet0"
  by (simp add: example_simps init_simps quit_def quit_begin_def Let_def world_simps
      foldl_puppet_on new_PuppetWeb_def puppet0_def)

text \<open>
  C4. Let \<open>p\<close> be the driver that \<open>initPuppet\<close> has constructed, subscribed to and
  bound when it awaits the driver's start-up. For each of the ten names \<open>error\<close>,
  \<open>friend\<close>, \<open>heartbeat\<close>, \<open>login\<close>, \<open>logout\<close>, \<open>message\<close>, \<open>room-join\<close>,
  \<open>room-leave\<close>, \<open>room-topic\<close>, \<open>scan\<close> and all arguments, one emission of the
  driver makes exactly one call of the controller's \<open>emit\<close>, with the same name and
  the same argument list. A sequence of driver emissions makes the controller emit, in
  the same order, exactly those whose name is one of the ten; a sequence with names of
  the ten only is emitted unchanged.
\<close>

theorem relay_roundtrip:
  assumes "initPuppet_begin ctor w = Await p w'"
  shows "puppet (wechaty w') = Some p
     \<and> (\<forall>name \<in> {''error'', ''friend'', ''heartbeat'', ''login'', ''logout'', ''message'',
                  ''room-join'', ''room-leave'', ''room-topic'', ''scan''}.
          \<forall>args. puppet_emit p (name, args) = [(name, args)])
     \<and> puppet_emits p evs =
          filter (\<lambda>ev. fst ev \<in> {''error'', ''friend'', ''heartbeat'', ''login'', ''logout'',
                    ''message'', ''room-join'', ''room-leave'', ''room-topic'', ''scan''}) evs
     \<and> (set (map fst evs) \<subseteq> {''error'', ''friend'', ''heartbeat'', ''login'', ''logout'',
                    ''message'', ''room-join'', ''room-leave'', ''room-topic'', ''scan''}
          \<longrightarrow> puppet_emits p evs = evs)"
proof -
  note l = initPuppet_begin_bound [OF assms]
  have "set (map fst evs) \<subseteq> set eventList \<Longrightarrow>
        filter (\<lambda>ev. fst ev \<in> set eventList) evs = evs"
    by (induction evs) auto
  then have "puppet (wechaty w') = Some p
     \<and> (\<forall>name \<in> set eventList. \<forall>args. puppet_emit p (name, args) = [(name, args)])
     \<and> puppet_emits p evs = filter (\<lambda>ev. fst ev \<in> set eventList) evs
     \<and> (set (map fst evs) \<subseteq> set eventList \<longrightarrow> puppet_emits p evs = evs)"
    using l(2) by (auto simp: puppet_emit_relay [OF l(1)] puppet_emits_relay [OF l(1)])
  then show ?thesis unfolding set_eventList .
qed

theorem relay_roundtrip_witness:
  "initPuppet_begin None world0 = Await puppet0 world_starting
   \<and> puppet_emit puppet0 (''scan'', [''https://x'', ''200'']) =
       [(''scan'', [''https://x'', ''200''])]
   \<and> puppet_emits puppet0
        [(''scan'', [''https://x'', ''200'']), (''login'', [''alice'']),
         (''message'', [''hi'']), (''heartbeat'', [''tick'']), (''friend'', [''bob'', ''req'']),
         (''room-join'', [''room'', ''bob'', ''alice'']), (''message'', [''again'']),
         (''room-topic'', [''room'', ''new'', ''old'', ''alice'']),
         (''room-leave'', [''room'', ''bob'']), (''error'', [''e'']), (''logout'', [''alice''])] =
        [(''scan'', [''https://x'', ''200'']), (''login'', [''alice'']),
         (''message'', [''hi'']), (''heartbeat'', [''tick'']), (''friend'', [''bob'', ''req'']),
         (''room-join'', [''room'', ''bob'', ''alice'']), (''message'', [''again'']),
         (''room-topic'', [''room'', ''new'', ''old'', ''alice'']),
         (''room-leave'', [''room'', ''bob'']), (''error'', [''e'']), (''logout'', [''alice''])]"
proof -
  let ?names = "{''error'', ''friend'', ''heartbeat'', ''login'', ''logout'', ''message'',
     ''room-join'', ''room-leave'', ''room-topic'', ''scan''}"
  let ?evs = "[(''scan'', [''https://x'', ''200'']), (''login'', [''alice'']),
         (''message'', [''hi'']), (''heartbeat'', [''tick'']), (''friend'', [''bob'', ''req'']),
         (''room-join'', [''room'', ''bob'', ''alice'']), (''message'', [''again'']),
         (''room-topic'', [''room'', ''new'', ''old'', ''alice'']),
         (''room-leave'', [''room'', ''bob'']), (''error'', [''e'']), (''logout'', [''alice''])]"
  have a: "''scan'' \<in> ?names" by simp
  have b: "set (map fst ?evs) \<subseteq> ?names" by simp
  note t = relay_roundtrip [OF initPuppet_begin_world0, of ?evs]
  have "puppet_emit puppet0 (''scan'', [''https://x'', ''200'']) =
       [(''scan'', [''https://x'', ''200''])]"
    by (rule t [THEN conjunct2, THEN conjunct1, THEN bspec, OF a, THEN spec])
  moreover have "puppet_emits puppet0 ?evs = ?evs"
    by (rule t [THEN conjunct2, THEN conjunct2, THEN conjunct2, THEN mp, OF b])
  ultimately show ?thesis using initPuppet_begin_world0 by (simp only: simp_thms)
qed

text \<open>
  C5. While no instance exists, \<open>Wechaty.instance\<close> constructs one from its
  argument, stores it and returns its handle. The constructed object has the given
  head, driver kind and profile, each replaced by the default of the module \<open>config\<close>
  where none is given; a profile that does not end in \<open>.wechaty.json\<close> (letters
  compared without case) has that suffix appended; the object holds no driver, is in
  \<open>standby\<close> and has the generated identifier. While an instance exists, a call with
  a setting throws "there has already a instance. no params will be allowed any more"
  (the spec's AlreadyInitializedError) and a call with no setting returns the stored
  handle; neither changes anything. So after any first call, a call with a setting
  throws, and a call with no setting returns the handle that the first call returned.
\<close>

theorem singleton:
  "(static_instance st = None \<longrightarrow>
      fst (Wechaty_instance arg guid st) = Inr (length (heap st))
      \<and> static_instance (snd (Wechaty_instance arg guid st)) = Some (length (heap st))
      \<and> heap (snd (Wechaty_instance arg guid st)) = heap st @ [fst (new_Wechaty arg guid st)]
      \<and> setting_head (setting (fst (new_Wechaty arg guid st))) =
          or_else (case arg of None \<Rightarrow> None | Some s \<Rightarrow> setting_head s) (config_head (conf st))
      \<and> setting_puppet (setting (fst (new_Wechaty arg guid st))) =
          or_else (case arg of None \<Rightarrow> None | Some s \<Rightarrow> setting_puppet s)
            (config_puppet (conf st)))
   \<and> (\<forall>h. static_instance st = Some h \<longrightarrow>
      Wechaty_instance (Some s) guid st =
        (Inl (Error ''there has already a instance. no params will be allowed any more''), st)
      \<and> Wechaty_instance None guid st = (Inr h, st))
   \<and> Wechaty_instance (Some s) guid' (snd (Wechaty_instance arg guid st)) =
        (Inl (Error ''there has already a instance. no params will be allowed any more''),
         snd (Wechaty_instance arg guid st))
   \<and> (fst (Wechaty_instance arg guid st) = Inr h' \<longrightarrow>
        Wechaty_instance None guid' (snd (Wechaty_instance arg guid st)) =
          (Inr h', snd (Wechaty_instance arg guid st)))
   \<and> setting_profile (setting (fst (new_Wechaty arg guid st))) =
       (let pr = or_else (case arg of None \<Rightarrow> None | Some s \<Rightarrow> setting_profile s)
                   (config_profile (conf st))
        in if \<not> truthy pr then pr
           else if \<exists>pre suf. str pr = pre @ suf \<and> map lower suf = ''.wechaty.json'' then pr
           else Some (str pr @ ''.wechaty.json''))
   \<and> puppet (fst (new_Wechaty arg guid st)) = None
   \<and> state (fst (new_Wechaty arg guid st)) = new_StateSwitch standby
   \<and> uuid (fst (new_Wechaty arg guid st)) = guid
   \<and> (static_instance st = None \<longrightarrow>
        conf (snd (Wechaty_instance arg guid st)) = conf st
        \<and> logged (snd (Wechaty_instance arg guid st)) =
            logged st @ [(Verbose, ''Wechaty'', ''contructor()'', [])])"
proof -
  have A: "(static_instance st = None \<longrightarrow>
      fst (Wechaty_instance arg guid st) = Inr (length (heap st))
      \<and> static_instance (snd (Wechaty_instance arg guid st)) = Some (length (heap st))
      \<and> heap (snd (Wechaty_instance arg guid st)) = heap st @ [fst (new_Wechaty arg guid st)]
      \<and> setting_head (setting (fst (new_Wechaty arg guid st))) =
          or_else (case arg of None \<Rightarrow> None | Some s \<Rightarrow> setting_head s) (config_head (conf st))
      \<and> setting_puppet (setting (fst (new_Wechaty arg guid st))) =
          or_else (case arg of None \<Rightarrow> None | Some s \<Rightarrow> setting_puppet s)
            (config_puppet (conf st)))
   \<and> (\<forall>h. static_instance st = Some h \<longrightarrow>
      Wechaty_instance (Some s) guid st =
        (Inl (Error ''there has already a instance. no params will be allowed any more''), st)
      \<and> Wechaty_instance None guid st = (Inr h, st))
   \<and> Wechaty_instance (Some s) guid' (snd (Wechaty_instance arg guid st)) =
        (Inl (Error ''there has already a instance. no params will be allowed any more''),
         snd (Wechaty_instance arg guid st))
   \<and> (fst (Wechaty_instance arg guid st) = Inr h' \<longrightarrow>
        Wechaty_instance None guid' (snd (Wechaty_instance arg guid st)) =
          (Inr h', snd (Wechaty_instance arg guid st)))"
    using new_Wechaty_setting(1,2) [of arg guid st]
    by (auto simp: Wechaty_instance_def Let_def case_prod_beta split: option.splits)
  have B: "setting_profile (setting (fst (new_Wechaty arg guid st))) =
       (let pr = or_else (case arg of None \<Rightarrow> None | Some s \<Rightarrow> setting_profile s)
                   (config_profile (conf st))
        in if \<not> truthy pr then pr
           else if \<exists>pre suf. str pr = pre @ suf \<and> map lower suf = ''.wechaty.json'' then pr
           else Some (str pr @ ''.wechaty.json''))"
    unfolding test_wechaty_json_iff [symmetric] by (rule new_Wechaty_profile)
  have C: "static_instance st = None \<longrightarrow>
        conf (snd (Wechaty_instance arg guid st)) = conf st
        \<and> logged (snd (Wechaty_instance arg guid st)) =
            logged st @ [(Verbose, ''Wechaty'', ''contructor()'', [])]"
    using new_Wechaty_logged [of arg guid st]
    by (simp add: Wechaty_instance_def Let_def case_prod_beta)
  from A B C new_Wechaty_setting(3-5) [of arg guid st] show ?thesis by blast
qed

theorem singleton_witness:
  "static_instance process0 = None
   \<and> fst (Wechaty_instance (Some setting3) ''guid-1'' process0) = Inr 0
   \<and> static_instance (snd (Wechaty_instance (Some setting3) ''guid-1'' process0)) = Some 0
   \<and> heap (snd (Wechaty_instance (Some setting3) ''guid-1'' process0)) =
       [\<lparr>setting = \<lparr>setting_head = Some ''chrome'', setting_puppet = Some ''android'',
            setting_profile = Some ''bot.wechaty.json''\<rparr>,
         puppet = None, state = new_StateSwitch standby, uuid = ''guid-1''\<rparr>]
   \<and> fst (Wechaty_instance (Some setting0) ''guid-2''
        (snd (Wechaty_instance (Some setting3) ''guid-1'' process0))) =
       Inl (Error ''there has already a instance. no params will be allowed any more'')
   \<and> fst (Wechaty_instance None ''guid-2''
        (snd (Wechaty_instance (Some setting3) ''guid-1'' process0))) = Inr 0
   \<and> setting (fst (new_Wechaty (Some setting4) ''guid-1'' process0)) =
       \<lparr>setting_head = Some ''firefox'', setting_puppet = Some ''web'',
        setting_profile = Some ''My.WeChaty.JSON''\<rparr>"
proof -
  have a: "static_instance process0 = None" "heap process0 = []"
    by (simp_all add: process0_def)
  have b: "fst (Wechaty_instance (Some setting3) ''guid-1'' process0) = Inr 0"
    by (simp add: Wechaty_instance_process0)
  have c: "static_instance (snd (Wechaty_instance (Some setting3) ''guid-1'' process0)) = Some 0"
    by (simp add: Wechaty_instance_process0)
  have d: "heap (snd (Wechaty_instance (Some setting3) ''guid-1'' process0)) =
       [\<lparr>setting = \<lparr>setting_head = Some ''chrome'', setting_puppet = Some ''android'',
            setting_profile = Some ''bot.wechaty.json''\<rparr>,
         puppet = None, state = new_StateSwitch standby, uuid = ''guid-1''\<rparr>]"
    by (simp add: Wechaty_instance_process0)
  note t = singleton [of process0 "Some setting3" "''guid-1''" setting0 "''guid-2''" 0]
  from t have "Wechaty_instance (Some setting0) ''guid-2''
        (snd (Wechaty_instance (Some setting3) ''guid-1'' process0)) =
        (Inl (Error ''there has already a instance. no params will be allowed any more''),
         snd (Wechaty_instance (Some setting3) ''guid-1'' process0))"
    by blast
  moreover from t b have "Wechaty_instance None ''guid-2''
        (snd (Wechaty_instance (Some setting3) ''guid-1'' process0)) =
        (Inr 0, snd (Wechaty_instance (Some setting3) ''guid-1'' process0))"
    by blast
  ultimately show ?thesis
    using a b c d new_Wechaty_setting4 by simp
qed

text \<open>
  C6. When \<open>quit\<close> runs on a settled \<open>ready\<close> controller that holds the driver
  \<open>p\<close>, its first turn ends awaiting the teardown of \<open>p\<close> with the driver reference
  already cleared. Whatever the teardown does, the driver reference is \<open>None\<close> when
  \<open>quit\<close> ends. When the teardown fails with \<open>e\<close>, \<open>quit\<close> logs the failure,
  gives \<open>e\<close> to the error sink and throws \<open>e\<close>.
\<close>

theorem quit_clears_first:
  assumes "current (state (wechaty w)) = ready" and "\<not> inprocess (state (wechaty w))"
    and "puppet (wechaty w) = Some p"
  shows "quit_begin w = Await p (world_of (quit_begin w))
         \<and> puppet (wechaty (world_of (quit_begin w))) = None
         \<and> quit teardown w = quit_resume teardown (world_of (quit_begin w))
         \<and> puppet (wechaty (snd (quit teardown w))) = None
         \<and> (teardown = None \<longrightarrow> fst (quit teardown w) = Inr ())
         \<and> (\<forall>e. teardown = Some e \<longrightarrow>
               fst (quit teardown w) = Inl e
               \<and> captured (snd (quit teardown w)) = captured w @ [e]
               \<and> last (logged (snd (quit teardown w))) =
                   (Err, ''Wechaty'', ''quit() exception: %s'', [message e]))"
proof -
  let ?w' = "set_puppetInstance None (set_puppet None
        (set_state (set_current standby False)
          (set_state (target standby) (log Verbose ''quit()'' [] w))))"
  have b: "quit_begin w = Await p ?w'"
    using assms by (simp add: quit_begin_def Let_def world_simps)
  have c: "puppet (wechaty ?w') = None" "captured ?w' = captured w"
    by (simp_all add: world_simps)
  show ?thesis
    unfolding b quit_def using c
    by (cases teardown) (simp_all add: quit_resume_def world_simps)
qed

theorem quit_clears_first_witness:
  "current (state (wechaty world_ready)) = ready
   \<and> \<not> inprocess (state (wechaty world_ready))
   \<and> puppet (wechaty world_ready) = Some puppet0
   \<and> quit_begin world_ready = Await puppet0 (world_of (quit_begin world_ready))
   \<and> puppet (wechaty (world_of (quit_begin world_ready))) = None
   \<and> fst (quit (Some (Error ''hang'')) world_ready) = Inl (Error ''hang'')
   \<and> puppet (wechaty (snd (quit (Some (Error ''hang'')) world_ready))) = None"
proof -
  have a: "current (state (wechaty world_ready)) = ready"
    "\<not> inprocess (state (wechaty world_ready))"
    by (simp_all add: world_ready_state current_def inprocess_def)
  from quit_clears_first [OF a world_ready_puppet, of "Some (Error ''hang'')"] a
    world_ready_puppet
  show ?thesis by blast
qed

text \<open>
  C7, as the claim states it, fails: a driver kind other than \<open>web\<close> does not always
  fail with the error that names the kind. The head is tested first, so a request for
  \<open>android\<close> with no head fails with "no head".
\<close>

theorem factory_errors_counterexample:
  "setting_puppet (setting (wechaty world1)) = Some ''android''
   \<and> fst (init None None world1) = Inl (Error ''no head'')
   \<and> fst (init None None world1) \<noteq> Inl (Error ''Puppet unsupport(yet?): android'')"
  by (simp add: world1_def globals1_def setting1_def config0_def new_Wechaty_def or_else_def
      new_StateSwitch_def init_def init_begin_def initPuppet_begin_def init_catch_def
      Let_def world_simps)

text \<open>
  C7, amended. With no head, \<open>initPuppet\<close> throws "no head" (the spec's
  InvalidConfigurationError), whatever the driver kind. With a head and a driver kind
  other than \<open>web\<close> it throws "Puppet unsupport(yet?): " followed by the kind (the
  spec's UnsupportedDriverError). In both cases it throws in its first turn and leaves
  the world exactly as it was; \<open>init\<close> on a controller that is not \<open>ready\<close> then
  throws the same error, no \<open>new PuppetWeb\<close> is evaluated, and the driver reference
  and the module \<open>config\<close> are unchanged.
\<close>

theorem factory_errors:
  "(\<not> truthy (setting_head (setting (wechaty w))) \<longrightarrow>
      initPuppet_begin ctor w = Return (Inl (Error ''no head'')) w
      \<and> (current (state (wechaty w)) \<noteq> ready \<longrightarrow>
           fst (init ctor start w) = Inl (Error ''no head'')
           \<and> news (snd (init ctor start w)) = news w
           \<and> puppet (wechaty (snd (init ctor start w))) = puppet (wechaty w)
           \<and> conf (snd (init ctor start w)) = conf w))
   \<and> (truthy (setting_head (setting (wechaty w)))
        \<and> setting_puppet (setting (wechaty w)) \<noteq> Some ''web'' \<longrightarrow>
      initPuppet_begin ctor w =
        Return (Inl (Error (''Puppet unsupport(yet?): ''
          @ str (setting_puppet (setting (wechaty w)))))) w
      \<and> (current (state (wechaty w)) \<noteq> ready \<longrightarrow>
           fst (init ctor start w) =
             Inl (Error (''Puppet unsupport(yet?): ''
               @ str (setting_puppet (setting (wechaty w)))))
           \<and> news (snd (init ctor start w)) = news w
           \<and> puppet (wechaty (snd (init ctor start w))) = puppet (wechaty w)
           \<and> conf (snd (init ctor start w)) = conf w))"
  by (simp add: init_def init_begin_def initPuppet_begin_def init_catch_def init_log_def
      Let_def world_simps)

theorem factory_errors_witness:
  "\<not> truthy (setting_head (setting (wechaty world1)))
   \<and> current (state (wechaty world1)) \<noteq> ready
   \<and> fst (init None None world1) = Inl (Error ''no head'')
   \<and> news (snd (init None None world1)) = 0
   \<and> truthy (setting_head (setting (wechaty world2)))
   \<and> setting_puppet (setting (wechaty world2)) \<noteq> Some ''web''
   \<and> current (state (wechaty world2)) \<noteq> ready
   \<and> fst (init None None world2) = Inl (Error ''Puppet unsupport(yet?): android'')
   \<and> news (snd (init None None world2)) = 0"
proof -
  have a: "\<not> truthy (setting_head (setting (wechaty world1)))"
    "current (state (wechaty world1)) \<noteq> ready" "news world1 = 0"
    by (simp_all add: world1_def globals1_def setting1_def config0_def new_Wechaty_def
        or_else_def new_StateSwitch_def current_def Let_def)
  have b: "truthy (setting_head (setting (wechaty world2)))"
    "setting_puppet (setting (wechaty world2)) = Some ''android''"
    "current (state (wechaty world2)) \<noteq> ready" "news world2 = 0"
    by (simp_all add: world2_def example_simps setting2_def current_def)
  show ?thesis
    using a b factory_errors [of world1 None None] factory_errors [of world2 None None]
    by simp
qed

text \<open>
  C8. With no driver bound, \<open>send\<close>, \<open>self\<close>, \<open>ding\<close>, \<open>reset\<close> and \<open>logout\<close>
  each fail with their "no puppet" error (the spec's NoActiveDriverError): \<open>send\<close>,
  \<open>reset\<close> and \<open>logout\<close> with "no puppet", \<open>self\<close> with "Wechaty.self() no
  puppet", \<open>ding\<close> with a promise rejected with "wechaty cant ding coz no puppet".
  After an \<open>init\<close> that succeeded and a \<open>quit\<close> that succeeded, \<open>send\<close> fails with
  "no puppet".
\<close>

theorem delegation_no_driver:
  "(puppet (wechaty w) = None \<longrightarrow>
      fst (send msg sent w) = Inl (Error ''no puppet'')
      \<and> fst (self contact w) = Inl (Error ''Wechaty.self() no puppet'')
      \<and> fst (ding pong w) = Inl (Error ''wechaty cant ding coz no puppet'')
      \<and> fst (reset reason outcome w) = Inl (Error ''no puppet'')
      \<and> fst (logout outcome' w) = Inl (Error ''no puppet''))
   \<and> (fst (init ctor start w) = Inr () \<and> fst (quit teardown (snd (init ctor start w))) = Inr ()
        \<longrightarrow> fst (send msg sent (snd (quit teardown (snd (init ctor start w)))))
              = Inl (Error ''no puppet''))"
proof -
  have a: "puppet (wechaty v) = None \<Longrightarrow> fst (send msg sent v) = Inl (Error ''no puppet'')"
    for v
    by (simp add: send_def)
  show ?thesis
    using a [OF quit_ok_unbound [of teardown "snd (init ctor start w)"]]
    by (simp add: send_def self_def ding_def reset_def logout_def Let_def)
qed

theorem delegation_no_driver_witness:
  "puppet (wechaty world0) = None
   \<and> fst (send ''hello'' (Inr True) world0) = Inl (Error ''no puppet'')
   \<and> fst (ding (Inr ''dong'') world0) = Inl (Error ''wechaty cant ding coz no puppet'')
   \<and> fst (init None None world0) = Inr ()
   \<and> fst (quit None (snd (init None None world0))) = Inr ()
   \<and> fst (send ''hello'' (Inr True) (snd (quit None (snd (init None None world0)))))
        = Inl (Error ''no puppet'')"
proof -
  have p: "puppet (wechaty world0) = None"
    by (simp add: world0_def wechaty0_def)
  have q: "fst (quit None (snd (init None None world0))) = Inr ()"
    using world_ready_state world_ready_puppet
    by (simp add: world_ready_def [symmetric] quit_def quit_begin_def quit_resume_def
        Let_def world_simps)
  show ?thesis
    using p q init_world0
      delegation_no_driver [of world0 "''hello''" "Inr True" "Inr ()" "Inr ''dong''" None None
        None None None None]
    by simp
qed

text \<open>
  C9, as the claim states it, fails: after an \<open>init\<close> that succeeded, the variable of
  the module \<open>config\<close> that \<open>config.puppetInstance\<close> sets holds the driver that the
  controller holds.
\<close>

theorem exclusive_ownership_counterexample:
  "fst (init None None world0) = Inr ()
   \<and> puppet (wechaty (snd (init None None world0))) = Some puppet0
   \<and> puppetInstance (conf (snd (init None None world0))) = Some puppet0"
  by (simp add: example_simps init_simps Let_def world_simps foldl_puppet_on
      new_PuppetWeb_def puppet0_def)

text \<open>
  C9, amended. In every reachable world, also between the turns of a call, the
  variable of the module \<open>config\<close> holds what the controller's driver reference
  holds: the same driver while one is bound, nothing while none is. The controller
  shares its driver with the module \<open>config\<close>, and sets and clears both references
  together.
\<close>

theorem driver_shared_with_config:
  assumes "reachable w"
  shows "puppetInstance (conf w) = puppet (wechaty w)"
proof -
  from assms have "registry_inv w"
  proof (induction rule: reachable.induct)
    case (r_fresh w)
    then show ?case by (simp add: fresh_def registry_inv_def)
  qed (simp_all add: inv_init_begin inv_init_resume inv_quit_begin inv_quit_resume
      inv_delegation)
  then show ?thesis by (simp add: registry_inv_def)
qed

theorem driver_shared_with_config_witness:
  "reachable world_ready
   \<and> puppet (wechaty world_ready) = Some puppet0
   \<and> puppetInstance (conf world_ready) = Some puppet0"
  using reachable_world_ready world_ready_puppet
    driver_shared_with_config [OF reachable_world_ready]
  by simp

text \<open>
  C10. Let \<open>quit\<close> run on a settled \<open>ready\<close> controller. With no driver bound it
  returns without error, and when the teardown of the bound driver fails with \<open>e\<close>
  it throws \<open>e\<close>; in both cases the current state is afterwards \<open>standby\<close> with the
  transition still in progress. Only when the teardown of the bound driver succeeds is
  the state settled: \<open>standby\<close>, no transition in progress.
\<close>

theorem quit_unsettled:
  assumes "current (state (wechaty w)) = ready" and "\<not> inprocess (state (wechaty w))"
  shows "(puppet (wechaty w) = None \<longrightarrow>
            fst (quit teardown w) = Inr ()
            \<and> current (state (wechaty (snd (quit teardown w)))) = standby
            \<and> inprocess (state (wechaty (snd (quit teardown w)))))
         \<and> (puppet (wechaty w) \<noteq> None \<and> teardown = Some e \<longrightarrow>
            fst (quit teardown w) = Inl e
            \<and> current (state (wechaty (snd (quit teardown w)))) = standby
            \<and> inprocess (state (wechaty (snd (quit teardown w)))))
         \<and> (puppet (wechaty w) \<noteq> None \<and> teardown = None \<longrightarrow>
            fst (quit teardown w) = Inr ()
            \<and> current (state (wechaty (snd (quit teardown w)))) = standby
            \<and> \<not> inprocess (state (wechaty (snd (quit teardown w)))))"
  using assms
  by (auto simp: quit_def quit_begin_def quit_resume_def Let_def world_simps
      split: option.splits)

theorem quit_unsettled_witness:
  "current (state (wechaty world_driverless)) = ready
   \<and> \<not> inprocess (state (wechaty world_driverless))
   \<and> puppet (wechaty world_driverless) = None
   \<and> fst (quit None world_driverless) = Inr ()
   \<and> current (state (wechaty (snd (quit None world_driverless)))) = standby
   \<and> inprocess (state (wechaty (snd (quit None world_driverless))))
   \<and> current (state (wechaty world_ready)) = ready
   \<and> \<not> inprocess (state (wechaty world_ready))
   \<and> puppet (wechaty world_ready) \<noteq> None
   \<and> fst (quit (Some (Error ''hang'')) world_ready) = Inl (Error ''hang'')
   \<and> current (state (wechaty (snd (quit (Some (Error ''hang'')) world_ready)))) = standby
   \<and> inprocess (state (wechaty (snd (quit (Some (Error ''hang'')) world_ready))))"
proof -
  have a: "current (state (wechaty world_driverless)) = ready"
    "\<not> inprocess (state (wechaty world_driverless))"
    by (simp_all add: world_driverless_def example_simps world_simps)
  have b: "puppet (wechaty world_driverless) = None"
    by (simp add: world_driverless_def example_simps world_simps)
  have c: "current (state (wechaty world_ready)) = ready"
    "\<not> inprocess (state (wechaty world_ready))"
    by (simp_all add: world_ready_state current_def inprocess_def)
  from quit_unsettled [OF a, of None] quit_unsettled [OF c, of "Some (Error ''hang'')" "Error ''hang''"]
    a b c world_ready_puppet
  show ?thesis by simp
qed

end
